theory Spec2Isabelle
  imports Main "HOL-Library.Word"
begin

section \<open>Data model\<close>

text \<open>
  The component under study is the React function component \<open>App\<close>: the input
  staging handlers, the translate-then-synthesize pipeline
  (\<open>handleTranslateAndSpeak\<close>) and the playback controls (\<open>playAudio\<close>,
  \<open>stopAudio\<close>, \<open>handleReplay\<close>, \<open>getAudioContext\<close>, the unmount cleanup).

  A JavaScript string is a sequence of UTF-16 code units and \<open>length\<close> counts
  code units.
\<close>

type_synonym code_unit = "16 word"
type_synonym jsstring = "code_unit list"

definition MAX_INPUT_LENGTH :: nat where
  "MAX_INPUT_LENGTH = 10000"

text \<open>The code units removed by \<open>String.prototype.trim\<close>: white space and line terminators.\<close>

definition is_white_space :: "code_unit \<Rightarrow> bool" where
  "is_white_space c \<longleftrightarrow>
     c = 0x0009 \<or> c = 0x000A \<or> c = 0x000B \<or> c = 0x000C \<or> c = 0x000D \<or>
     c = 0x0020 \<or> c = 0x00A0 \<or> c = 0x1680 \<or> (0x2000 \<le> c \<and> c \<le> 0x200A) \<or>
     c = 0x2028 \<or> c = 0x2029 \<or> c = 0x202F \<or> c = 0x205F \<or> c = 0x3000 \<or> c = 0xFEFF"

definition trim :: "jsstring \<Rightarrow> jsstring" where
  "trim s = rev (dropWhile is_white_space (rev (dropWhile is_white_space s)))"

text \<open>\<open>String.prototype.slice(0, n)\<close> for a non-negative \<open>n\<close>.\<close>

definition slice0 :: "nat \<Rightarrow> jsstring \<Rightarrow> jsstring" where
  "slice0 n s = take n s"

datatype TargetLanguage = ENGLISH | CHINESE | VIETNAMESE | RUSSIAN | UZBEK

text \<open>A decoded audio buffer is opaque to the component; it is identified by a number.\<close>

datatype AudioBuffer = AudioBuffer nat

record TranslationResult =
  originalText :: jsstring
  translatedText :: jsstring
  targetLanguage :: TargetLanguage
  audioBuffer :: "AudioBuffer option"

datatype dom_exception = InvalidStateError

text \<open>
  What a collaborator or the audio device throws: an error object with its
  \<open>message\<close>, or a DOM exception.
\<close>

datatype js_error = ServiceError jsstring | DomError dom_exception

text \<open>
  The \<open>error\<close> field holds a display string. Each constructor stands for one of
  the string templates of the source, with the interpolated values as arguments.
\<close>

datatype message =
    EmptyInputMsg
  | InputTooLongMsg nat nat
  | SpeechFailedMsg js_error
  | ThrownMsg jsstring
  | ProcessingFailedMsg
  | UnsupportedFileMsg
  | FileTooLargeMsg
  | FileTruncatedMsg nat
  | FileReadFailedMsg
  | DomExceptionMsg dom_exception

record AppState =
  inputText :: jsstring
  selectedLanguage :: TargetLanguage
  isProcessing :: bool
  result :: "TranslationResult option"
  error :: "message option"

subsection \<open>The Web Audio objects the component holds\<close>

datatype ctx_state = Suspended | Running | Closed

text \<open>
  An \<open>AudioContext\<close>: its \<open>state\<close> attribute, and whether a \<open>resume()\<close> or
  \<open>suspend()\<close> has been requested and not yet carried out by the device (the
  attribute changes, and the promise settles, in a later task).
\<close>

record AudioContext =
  cstate :: ctx_state
  resume_requested :: bool
  suspend_requested :: bool

datatype node_phase = Unscheduled | Playing | Finished

text \<open>
  An \<open>AudioBufferSourceNode\<close>. The only handler the component ever assigns to
  \<open>onended\<close> is the natural-end handler of \<open>playAudio\<close>, so the attribute is
  modelled by whether that handler is attached.
\<close>

record SourceNode =
  buffer :: "AudioBuffer option"
  node_ctx :: nat
  connected :: bool
  onended :: bool
  phase :: node_phase

text \<open>
  The calls the component makes on the Web Audio API and that the API carries
  out, in order (a call that throws or is rejected leaves no entry).
\<close>

datatype api_call =
    NewAudioContext nat
  | CtxResume nat
  | CtxSuspend nat
  | CtxClose nat
  | CreateBufferSource nat nat
  | SetOnended nat bool
  | SourceStart nat
  | SourceStop nat

text \<open>
  The state of one mounted \<open>App\<close>: the \<open>useState\<close> cells, the two refs, and
  the store of the audio objects the refs and closures point into (an object
  reference is an index into \<open>contexts\<close> or \<open>sources\<close>). \<open>unhandled\<close> collects
  the rejections of promises that nothing awaits or catches.
\<close>

record App =
  state :: AppState
  isExtracting :: bool
  isPlaying :: bool
  isPaused :: bool
  audioContextRef :: "nat option"
  audioSourceRef :: "nat option"
  contexts :: "AudioContext list"
  sources :: "SourceNode list"
  calls :: "api_call list"
  unhandled :: "dom_exception list"

text \<open>The initial state of the hooks (lines 24--41).\<close>

definition initial_state :: AppState where
  "initial_state = \<lparr> inputText = [], selectedLanguage = CHINESE, isProcessing = False,
     result = None, error = None \<rparr>"

definition initial_app :: App where
  "initial_app = \<lparr> state = initial_state, isExtracting = False, isPlaying = False,
     isPaused = False, audioContextRef = None, audioSourceRef = None,
     contexts = [], sources = [], calls = [], unhandled = [] \<rparr>"

text \<open>
  What an asynchronous function is waiting for when it yields: nothing more
  (\<open>Done\<close>), an exception that left it (\<open>Threw\<close>), or the request it has just
  made and awaits. The continuation functions below are the code after each
  \<open>await\<close>; they take the values the closure captured.
\<close>

datatype pending =
    Done
  | Threw js_error
  | AwaitTranslate jsstring TargetLanguage
  | AwaitSpeech jsstring nat
  | AwaitCtxResume nat
  | AwaitCtxSuspend nat
  | AwaitExtract

section \<open>State setters\<close>

definition setState :: "(AppState \<Rightarrow> AppState) \<Rightarrow> App \<Rightarrow> App" where
  "setState f a = a\<lparr> state := f (state a) \<rparr>"

definition setIsPlaying :: "bool \<Rightarrow> App \<Rightarrow> App" where
  "setIsPlaying b a = a\<lparr> isPlaying := b \<rparr>"

definition setIsPaused :: "bool \<Rightarrow> App \<Rightarrow> App" where
  "setIsPaused b a = a\<lparr> isPaused := b \<rparr>"

definition setIsExtracting :: "bool \<Rightarrow> App \<Rightarrow> App" where
  "setIsExtracting b a = a\<lparr> isExtracting := b \<rparr>"

section \<open>Language selection (lines 385--407)\<close>

definition selectLanguage :: "TargetLanguage \<Rightarrow> App \<Rightarrow> App" where
  "selectLanguage lang a =
     setState (\<lambda>prev. prev\<lparr> selectedLanguage := lang, result := None \<rparr>) a"

section \<open>The audio device\<close>

text \<open>
  \<open>ctx.resume()\<close> returns a promise: it is rejected with \<open>InvalidStateError\<close> on
  a closed context (\<open>Inl\<close>); otherwise the request is passed to the device and
  the promise settles when the device runs. \<open>ctx.suspend()\<close> and \<open>ctx.close()\<close>
  are analogous; closing sets the context to \<open>closed\<close>.
\<close>

definition ctx_resume :: "nat \<Rightarrow> App \<Rightarrow> dom_exception + App" where
  "ctx_resume c a =
     (if cstate (contexts a ! c) = Closed then Inl InvalidStateError
      else Inr (a\<lparr> contexts := (contexts a)[c := (contexts a ! c)\<lparr> resume_requested := True \<rparr>],
                     calls := calls a @ [CtxResume c] \<rparr>))"

definition ctx_suspend :: "nat \<Rightarrow> App \<Rightarrow> dom_exception + App" where
  "ctx_suspend c a =
     (if cstate (contexts a ! c) = Closed then Inl InvalidStateError
      else Inr (a\<lparr> contexts := (contexts a)[c := (contexts a ! c)\<lparr> suspend_requested := True \<rparr>],
                     calls := calls a @ [CtxSuspend c] \<rparr>))"

definition ctx_close :: "nat \<Rightarrow> App \<Rightarrow> dom_exception + App" where
  "ctx_close c a =
     (if cstate (contexts a ! c) = Closed then Inl InvalidStateError
      else Inr (a\<lparr> contexts := (contexts a)[c := (contexts a ! c)\<lparr> cstate := Closed,
                       resume_requested := False, suspend_requested := False \<rparr>],
                     calls := calls a @ [CtxClose c] \<rparr>))"

text \<open>
  A promise the caller neither awaits nor catches: a rejection is an unhandled
  rejection and the caller goes on in the state it had.
\<close>

definition unawaited :: "dom_exception + App \<Rightarrow> App \<Rightarrow> App" where
  "unawaited r a = (case r of Inl e \<Rightarrow> a\<lparr> unhandled := unhandled a @ [e] \<rparr> | Inr a' \<Rightarrow> a')"

text \<open>The device carries out a requested resume or suspend on a context that is not closed.\<close>

definition device_running :: "nat \<Rightarrow> App \<Rightarrow> App" where
  "device_running c a =
     (if c < length (contexts a) \<and> cstate (contexts a ! c) \<noteq> Closed
      then a\<lparr> contexts := (contexts a)[c := (contexts a ! c)\<lparr> cstate := Running,
                  resume_requested := False \<rparr>] \<rparr>
      else a)"

definition device_suspended :: "nat \<Rightarrow> App \<Rightarrow> App" where
  "device_suspended c a =
     (if c < length (contexts a) \<and> cstate (contexts a ! c) \<noteq> Closed
      then a\<lparr> contexts := (contexts a)[c := (contexts a ! c)\<lparr> cstate := Suspended,
                  suspend_requested := False \<rparr>] \<rparr>
      else a)"

text \<open>
  \<open>ctx.createBufferSource()\<close>: a new node, not yet connected or started, at the
  next free index of the store.
\<close>

definition createBufferSource :: "nat \<Rightarrow> App \<Rightarrow> nat \<times> App" where
  "createBufferSource c a =
     (let s = length (sources a)
      in (s, a\<lparr> sources := sources a @
                  [\<lparr> buffer = None, node_ctx = c, connected = False, onended = False,
                     phase = Unscheduled \<rparr>],
                calls := calls a @ [CreateBufferSource s c] \<rparr>))"

definition update_source :: "nat \<Rightarrow> (SourceNode \<Rightarrow> SourceNode) \<Rightarrow> App \<Rightarrow> App" where
  "update_source s f a = a\<lparr> sources := (sources a)[s := f (sources a ! s)] \<rparr>"

definition set_onended :: "nat \<Rightarrow> bool \<Rightarrow> App \<Rightarrow> App" where
  "set_onended s h a =
     (update_source s (\<lambda>n. n\<lparr> onended := h \<rparr>) a)\<lparr> calls := calls a @ [SetOnended s h] \<rparr>"

text \<open>\<open>source.start()\<close> throws on a node that was started before.\<close>

definition source_start :: "nat \<Rightarrow> App \<Rightarrow> dom_exception + App" where
  "source_start s a =
     (if phase (sources a ! s) \<noteq> Unscheduled then Inl InvalidStateError
      else Inr ((update_source s (\<lambda>n. n\<lparr> phase := Playing \<rparr>) a)
                  \<lparr> calls := calls a @ [SourceStart s] \<rparr>))"

text \<open>\<open>source.stop()\<close> throws on a node that was never started.\<close>

definition source_stop :: "nat \<Rightarrow> App \<Rightarrow> dom_exception + App" where
  "source_stop s a =
     (if phase (sources a ! s) = Unscheduled then Inl InvalidStateError
      else Inr ((update_source s (\<lambda>n. n\<lparr> phase := Finished \<rparr>) a)
                  \<lparr> calls := calls a @ [SourceStop s] \<rparr>))"

text \<open>
  The device's end-of-playback notification for node \<open>s\<close>: the node has
  finished, and the \<open>ended\<close> event runs the handler of lines 132--136 if it is
  still attached.
\<close>

definition natural_end :: "nat \<Rightarrow> App \<Rightarrow> App" where
  "natural_end s a =
     (if s < length (sources a)
      then (let a' = update_source s (\<lambda>n. n\<lparr> phase := Finished \<rparr>) a
            in if onended (sources a ! s) then setIsPaused False (setIsPlaying False a') else a')
      else a)"

text \<open>The sources that are started and have neither been stopped nor ended.\<close>

definition playing_sources :: "App \<Rightarrow> nat list" where
  "playing_sources a = filter (\<lambda>s. phase (sources a ! s) = Playing) [0..<length (sources a)]"

section \<open>Playback controls\<close>

text \<open>\<open>getAudioContext\<close> (lines 44--51); a new context starts out suspended.\<close>

definition getAudioContext :: "App \<Rightarrow> nat \<times> App" where
  "getAudioContext a =
     (case audioContextRef a of
        None \<Rightarrow>
          (let c = length (contexts a)
           in (c, a\<lparr> contexts := contexts a @
                       [\<lparr> cstate = Suspended, resume_requested = False,
                          suspend_requested = False \<rparr>],
                     audioContextRef := Some c,
                     calls := calls a @ [NewAudioContext c] \<rparr>))
      | Some c \<Rightarrow> (c, a))"

text \<open>\<open>stopAudio\<close> (lines 160--179).\<close>

definition stopAudio :: "App \<Rightarrow> App" where
  "stopAudio a =
     (let a1 = (case audioSourceRef a of
                  None \<Rightarrow> a
                | Some s \<Rightarrow>
                    (let a' = set_onended s False a;
                         a'' = (case source_stop s a' of Inl e \<Rightarrow> a' | Inr b \<Rightarrow> b)
                     in a''\<lparr> audioSourceRef := None \<rparr>));
          a2 = (case audioContextRef a1 of
                  None \<Rightarrow> a1
                | Some c \<Rightarrow>
                    if cstate (contexts a1 ! c) = Suspended
                    then unawaited (ctx_resume c a1) a1 else a1)
      in setIsPaused False (setIsPlaying False a2))"

text \<open>
  \<open>playAudio\<close> (lines 120--142), split at its one \<open>await\<close>:
  \<open>playAudio_resumed\<close> is the code from line 128 on.
\<close>

definition playAudio_resumed :: "AudioBuffer \<Rightarrow> nat \<Rightarrow> App \<Rightarrow> App \<times> pending" where
  "playAudio_resumed buf c a =
     (let (s, a1) = createBufferSource c a;
          a2 = update_source s (\<lambda>n. n\<lparr> buffer := Some buf, connected := True \<rparr>) a1;
          a3 = set_onended s True a2
      in case source_start s a3 of
           Inl e \<Rightarrow> (a3, Threw (DomError e))
         | Inr a4 \<Rightarrow>
             (setIsPaused False (setIsPlaying True (a4\<lparr> audioSourceRef := Some s \<rparr>)), Done))"

definition playAudio :: "AudioBuffer \<Rightarrow> nat \<Rightarrow> App \<Rightarrow> App \<times> pending" where
  "playAudio buf c a =
     (let a1 = stopAudio a
      in if cstate (contexts a1 ! c) = Suspended
         then (case ctx_resume c a1 of
                 Inl e \<Rightarrow> (a1, Threw (DomError e))
               | Inr a2 \<Rightarrow> (a2, AwaitCtxResume c))
         else playAudio_resumed buf c a1)"

text \<open>\<open>handlePause\<close> and \<open>handleResume\<close> (lines 144--158), each split at its \<open>await\<close>.\<close>

definition handlePause :: "App \<Rightarrow> App \<times> pending" where
  "handlePause a =
     (case audioContextRef a of
        Some c \<Rightarrow>
          if isPlaying a
          then (case ctx_suspend c a of
                  Inl e \<Rightarrow> (a, Threw (DomError e))
                | Inr a' \<Rightarrow> (a', AwaitCtxSuspend c))
          else (a, Done)
      | None \<Rightarrow> (a, Done))"

definition handlePause_suspended :: "App \<Rightarrow> App" where
  "handlePause_suspended a = setIsPaused True (setIsPlaying False a)"

definition handleResume :: "App \<Rightarrow> App \<times> pending" where
  "handleResume a =
     (case audioContextRef a of
        Some c \<Rightarrow>
          if isPaused a
          then (case ctx_resume c a of
                  Inl e \<Rightarrow> (a, Threw (DomError e))
                | Inr a' \<Rightarrow> (a', AwaitCtxResume c))
          else (a, Done)
      | None \<Rightarrow> (a, Done))"

definition handleResume_resumed :: "App \<Rightarrow> App" where
  "handleResume_resumed a = setIsPaused False (setIsPlaying True a)"

text \<open>\<open>handleReplay\<close> (lines 181--185).\<close>

definition handleReplay :: "App \<Rightarrow> App \<times> pending" where
  "handleReplay a =
     (case result (state a) of
        None \<Rightarrow> (a, Done)
      | Some r \<Rightarrow>
          (case audioBuffer r of
             None \<Rightarrow> (a, Done)
           | Some buf \<Rightarrow>
               (case audioContextRef a of
                  None \<Rightarrow> (a, Done)
                | Some c \<Rightarrow> playAudio buf c a)))"

text \<open>The cleanup of the mount effect (lines 260--267).\<close>

definition cleanup :: "App \<Rightarrow> App" where
  "cleanup a =
     (let a1 = stopAudio a
      in case audioContextRef a1 of
           None \<Rightarrow> a1
         | Some c \<Rightarrow> unawaited (ctx_close c a1) a1)"

section \<open>Input staging\<close>

text \<open>The \<open>onChange\<close> of the text area (line 361) and \<open>clearInput\<close> (lines 254--256).\<close>

definition inputChange :: "jsstring \<Rightarrow> App \<Rightarrow> App" where
  "inputChange v a = setState (\<lambda>prev. prev\<lparr> inputText := v, error := None \<rparr>) a"

definition clearInput :: "App \<Rightarrow> App" where
  "clearInput a = setState (\<lambda>prev. prev\<lparr> inputText := [], result := None \<rparr>) a"

text \<open>
  \<open>err.message || fallback\<close>: an empty message is falsy. A DOM exception carries a
  non-empty message of the browser's.
\<close>

definition message_or :: "js_error \<Rightarrow> message \<Rightarrow> message" where
  "message_or err fallback =
     (case err of
        ServiceError m \<Rightarrow> if m = [] then fallback else ThrownMsg m
      | DomError e \<Rightarrow> DomExceptionMsg e)"

text \<open>
  \<open>handleFile\<close> (lines 189--225), split at its \<open>await\<close>. \<open>isValidFileType\<close> and
  \<open>isValidFileSize\<close> come from a module outside the component and are parameters.
\<close>

definition handleFile :: "('f \<Rightarrow> bool) \<Rightarrow> ('f \<Rightarrow> bool) \<Rightarrow> 'f \<Rightarrow> App \<Rightarrow> App \<times> pending" where
  "handleFile isValidFileType isValidFileSize file a =
     (if \<not> isValidFileType file
      then (setState (\<lambda>prev. prev\<lparr> error := Some UnsupportedFileMsg \<rparr>) a, Done)
      else if \<not> isValidFileSize file
      then (setState (\<lambda>prev. prev\<lparr> error := Some FileTooLargeMsg \<rparr>) a, Done)
      else (setState (\<lambda>prev. prev\<lparr> error := None, result := None \<rparr>) (setIsExtracting True a),
            AwaitExtract))"

definition handleFile_extracted :: "jsstring \<Rightarrow> App \<Rightarrow> App" where
  "handleFile_extracted extracted a =
     setIsExtracting False
       (if length extracted > MAX_INPUT_LENGTH
        then setState (\<lambda>prev. prev\<lparr> inputText := slice0 MAX_INPUT_LENGTH extracted,
                                    error := Some (FileTruncatedMsg MAX_INPUT_LENGTH) \<rparr>) a
        else setState (\<lambda>prev. prev\<lparr> inputText := extracted \<rparr>) a)"

definition handleFile_failed :: "js_error \<Rightarrow> App \<Rightarrow> App" where
  "handleFile_failed err a =
     setIsExtracting False
       (setState (\<lambda>prev. prev\<lparr> error := Some (message_or err FileReadFailedMsg) \<rparr>) a)"

section \<open>The translate-then-synthesize pipeline\<close>

text \<open>
  \<open>handleTranslateAndSpeak\<close> (lines 53--118), split at its awaits. The closure
  reads \<open>state.inputText\<close> and \<open>state.selectedLanguage\<close> from the \<open>state\<close> of the
  render in which the handler was created: the snapshot \<open>snap\<close>, which is the
  current state when the handler is invoked and stays what it was across the
  awaits. The updater functions given to \<open>setState\<close> run on the current state.
\<close>

definition handleTranslateAndSpeak :: "App \<Rightarrow> App \<times> pending" where
  "handleTranslateAndSpeak a =
     (let snap = state a
      in if trim (inputText snap) = []
         then (setState (\<lambda>prev. prev\<lparr> error := Some EmptyInputMsg \<rparr>) a, Done)
         else if length (inputText snap) > MAX_INPUT_LENGTH
         then (setState (\<lambda>prev. prev\<lparr> error :=
                  Some (InputTooLongMsg (length (inputText snap)) MAX_INPUT_LENGTH) \<rparr>) a, Done)
         else (stopAudio (setState (\<lambda>prev. prev\<lparr> isProcessing := True, error := None,
                                                   result := None \<rparr>) a),
               AwaitTranslate (inputText snap) (selectedLanguage snap)))"

text \<open>Lines 75--90: the translation has resolved with \<open>translated\<close>.\<close>

definition handleTranslateAndSpeak_translated ::
  "AppState \<Rightarrow> jsstring \<Rightarrow> App \<Rightarrow> App \<times> pending" where
  "handleTranslateAndSpeak_translated snap translated a =
     (let a1 = setState (\<lambda>prev. prev\<lparr> result := Some
                  \<lparr> originalText = inputText snap, translatedText = translated,
                    targetLanguage = selectedLanguage snap, audioBuffer = None \<rparr> \<rparr>) a;
          (audioCtx, a2) = getAudioContext a1
      in (a2, AwaitSpeech translated audioCtx))"

text \<open>Lines 101--109: the inner \<open>catch\<close>.\<close>

definition audio_catch :: "js_error \<Rightarrow> App \<Rightarrow> App \<times> pending" where
  "audio_catch audioErr a =
     (setState (\<lambda>prev. prev\<lparr> isProcessing := False,
                              error := Some (SpeechFailedMsg audioErr) \<rparr>) a, Done)"

definition in_audio_try :: "App \<times> pending \<Rightarrow> App \<times> pending" where
  "in_audio_try r = (case r of (a, Threw e) \<Rightarrow> audio_catch e a | _ \<Rightarrow> r)"

text \<open>Lines 92--99: the synthesis has resolved with the decoded buffer.\<close>

definition handleTranslateAndSpeak_speech :: "AudioBuffer \<Rightarrow> nat \<Rightarrow> App \<Rightarrow> App \<times> pending" where
  "handleTranslateAndSpeak_speech buf audioCtx a =
     (let a1 = setState (\<lambda>prev. prev\<lparr> isProcessing := False,
                  result := (case result prev of
                               Some r \<Rightarrow> Some (r\<lparr> audioBuffer := Some buf \<rparr>)
                             | None \<Rightarrow> None) \<rparr>) a
      in in_audio_try (playAudio buf audioCtx a1))"

text \<open>The rest of the awaited \<open>playAudio\<close>, still inside the inner \<open>try\<close>.\<close>

definition handleTranslateAndSpeak_resumed :: "AudioBuffer \<Rightarrow> nat \<Rightarrow> App \<Rightarrow> App \<times> pending" where
  "handleTranslateAndSpeak_resumed buf audioCtx a = in_audio_try (playAudio_resumed buf audioCtx a)"

text \<open>The synthesis call was rejected with \<open>audioErr\<close>.\<close>

definition handleTranslateAndSpeak_speech_failed :: "js_error \<Rightarrow> App \<Rightarrow> App \<times> pending" where
  "handleTranslateAndSpeak_speech_failed audioErr a = audio_catch audioErr a"

text \<open>Lines 111--117: the translation call was rejected with \<open>err\<close>.\<close>

definition handleTranslateAndSpeak_translate_failed :: "js_error \<Rightarrow> App \<Rightarrow> App \<times> pending" where
  "handleTranslateAndSpeak_translate_failed err a =
     (setState (\<lambda>prev. prev\<lparr> isProcessing := False,
                              error := Some (message_or err ProcessingFailedMsg) \<rparr>) a, Done)"

section \<open>What the render offers\<close>

text \<open>The \<open>disabled\<close> attribute of the submit button (line 413).\<close>

definition submit_disabled :: "App \<Rightarrow> bool" where
  "submit_disabled a \<longleftrightarrow>
     isProcessing (state a) \<or> isExtracting a \<or> trim (inputText (state a)) = []"

text \<open>The audio controls of the result section (lines 448 and 468--515).\<close>

datatype audio_controls = NoResultSection | NoAudio | PauseAndStop | ResumeAndStop | ReplayButton

definition rendered_controls :: "App \<Rightarrow> audio_controls" where
  "rendered_controls a =
     (case result (state a) of
        None \<Rightarrow> NoResultSection
      | Some r \<Rightarrow>
          (case audioBuffer r of
             None \<Rightarrow> NoAudio
           | Some b \<Rightarrow>
               if isPlaying a \<or> isPaused a
               then (if isPlaying a then PauseAndStop else ResumeAndStop)
               else ReplayButton))"


section \<open>Events\<close>

text \<open>
  Everything that can happen to a mounted component: the operator's actions,
  the settling of an awaited promise (the continuation then runs with the
  values its closure holds), and the notifications of the audio device. The
  events are not tied to a schedule: a continuation may run in any later state.
\<close>

datatype event =
    EvInputChange jsstring
  | EvClearInput
  | EvSelectLanguage TargetLanguage
  | EvFileChosen bool bool
  | EvFileExtracted jsstring
  | EvFileFailed js_error
  | EvSubmit
  | EvTranslated AppState jsstring
  | EvTranslateFailed js_error
  | EvSpeech AudioBuffer nat
  | EvSpeechFailed js_error
  | EvAutoPlayResumed AudioBuffer nat
  | EvReplay
  | EvReplayResumed AudioBuffer nat
  | EvStop
  | EvPause
  | EvPauseSuspended
  | EvResume
  | EvResumeResumed
  | EvNaturalEnd nat
  | EvDeviceRunning nat
  | EvDeviceSuspended nat
  | EvCleanup

fun step :: "event \<Rightarrow> App \<Rightarrow> App" where
  "step (EvInputChange v) a = inputChange v a"
| "step EvClearInput a = clearInput a"
| "step (EvSelectLanguage lang) a = selectLanguage lang a"
| "step (EvFileChosen okType okSize) a = fst (handleFile (\<lambda>f. okType) (\<lambda>f. okSize) () a)"
| "step (EvFileExtracted extracted) a = handleFile_extracted extracted a"
| "step (EvFileFailed err) a = handleFile_failed err a"
| "step EvSubmit a = fst (handleTranslateAndSpeak a)"
| "step (EvTranslated snap translated) a = fst (handleTranslateAndSpeak_translated snap translated a)"
| "step (EvTranslateFailed err) a = fst (handleTranslateAndSpeak_translate_failed err a)"
| "step (EvSpeech buf c) a = fst (handleTranslateAndSpeak_speech buf c a)"
| "step (EvSpeechFailed err) a = fst (handleTranslateAndSpeak_speech_failed err a)"
| "step (EvAutoPlayResumed buf c) a = fst (handleTranslateAndSpeak_resumed buf c a)"
| "step EvReplay a = fst (handleReplay a)"
| "step (EvReplayResumed buf c) a = fst (playAudio_resumed buf c a)"
| "step EvStop a = stopAudio a"
| "step EvPause a = fst (handlePause a)"
| "step EvPauseSuspended a = handlePause_suspended a"
| "step EvResume a = fst (handleResume a)"
| "step EvResumeResumed a = handleResume_resumed a"
| "step (EvNaturalEnd s) a = natural_end s a"
| "step (EvDeviceRunning c) a = device_running c a"
| "step (EvDeviceSuspended c) a = device_suspended c a"
| "step EvCleanup a = cleanup a"

fun run :: "event list \<Rightarrow> App \<Rightarrow> App" where
  "run [] a = a"
| "run (e # es) a = run es (step e a)"

text \<open>Node \<open>s\<close> exists and has no natural-end handler attached.\<close>

definition detached :: "nat \<Rightarrow> App \<Rightarrow> bool" where
  "detached s a \<longleftrightarrow> s < length (sources a) \<and> \<not> onended (sources a ! s)"

text \<open>At most one context exists, and the ref holds it.\<close>

definition one_context :: "App \<Rightarrow> bool" where
  "one_context a \<longleftrightarrow>
     (case audioContextRef a of
        None \<Rightarrow> length (contexts a) = 0
      | Some c \<Rightarrow> c = 0 \<and> length (contexts a) = 1)"


text \<open>
  The continuations that clear \<open>isProcessing\<close>: a rejected translation, and a
  resolved or rejected synthesis.
\<close>

fun ends_processing :: "event \<Rightarrow> bool" where
  "ends_processing (EvTranslateFailed err) = True"
| "ends_processing (EvSpeech buf c) = True"
| "ends_processing (EvSpeechFailed err) = True"
| "ends_processing e = False"

section \<open>Scenarios\<close>

text \<open>The freshly mounted component after the operator typed \<open>v\<close> into the text area.\<close>

definition typed_app :: "jsstring \<Rightarrow> App" where
  "typed_app v = inputChange v initial_app"

text \<open>The component after its first \<open>getAudioContext\<close>: the context is still suspended.\<close>

definition ctx_app :: App where
  "ctx_app = snd (getAudioContext initial_app)"

text \<open>
  Two calls of \<open>playAudio\<close> on the suspended context, the second made while the
  first awaits \<open>ctx.resume()\<close>; then the device runs and both calls go on.
\<close>

definition overlap_app :: App where
  "overlap_app =
     (let (a1, p1) = playAudio (AudioBuffer 11) 0 ctx_app;
          (a2, p2) = playAudio (AudioBuffer 22) 0 a1;
          a3 = device_running 0 a2;
          (a4, p4) = playAudio_resumed (AudioBuffer 11) 0 a3;
          (a5, p5) = playAudio_resumed (AudioBuffer 22) 0 a4
      in a5)"

text \<open>
  One run of the pipeline on the typed text \<open>A\<close>: started; translated to \<open>T\<close>;
  synthesis resolved while the context is still suspended, so that the auto-play
  awaits the resume; and playing, after the device has started to run.
\<close>

definition run_started :: App where
  "run_started = fst (handleTranslateAndSpeak (typed_app [0x41]))"

definition run_translated :: App where
  "run_translated =
     fst (handleTranslateAndSpeak_translated (state (typed_app [0x41])) [0x54] run_started)"

definition run_waiting :: App where
  "run_waiting = fst (handleTranslateAndSpeak_speech (AudioBuffer 11) 0 run_translated)"

definition run_playing :: App where
  "run_playing =
     fst (handleTranslateAndSpeak_resumed (AudioBuffer 11) 0 (device_running 0 run_waiting))"


text \<open>
  The replay button pressed while the first run's auto-play awaits the resume;
  then the device runs, and the auto-play and the replay both go on.
\<close>

definition replay_overlap_app :: App where
  "replay_overlap_app =
     (let (a1, p1) = handleReplay run_waiting;
          a2 = device_running 0 a1;
          (a3, p3) = handleTranslateAndSpeak_resumed (AudioBuffer 11) 0 a2;
          (a4, p4) = playAudio_resumed (AudioBuffer 11) 0 a3
      in a4)"

text \<open>
  A second run, on the typed text \<open>B\<close>, started while the first run's auto-play
  still awaits the resume; then the device runs and the first run's auto-play
  goes on.
\<close>

definition run2_started :: App where
  "run2_started = fst (handleTranslateAndSpeak (inputChange [0x42] run_waiting))"

definition stale_autoplay :: App where
  "stale_autoplay =
     fst (handleTranslateAndSpeak_resumed (AudioBuffer 11) 0 (device_running 0 run2_started))"


section \<open>Theorems\<close>

subsection \<open>Auxiliary facts\<close>

lemma stopAudio_state: "state (stopAudio a) = state a"
  by (simp add: stopAudio_def Let_def setIsPaused_def setIsPlaying_def unawaited_def
      ctx_resume_def set_onended_def source_stop_def update_source_def
      split: option.splits sum.splits)

lemma getAudioContext_state: "state (snd (getAudioContext a)) = state a"
  by (simp add: getAudioContext_def Let_def split: option.splits)

lemma trim_eq_Nil: "trim s = [] \<longleftrightarrow> (\<forall>c\<in>set s. is_white_space c)"
proof
  assume "trim s = []"
  then have all: "\<forall>c\<in>set (dropWhile is_white_space s). is_white_space c"
    by (simp add: trim_def dropWhile_eq_Nil_conv)
  show "\<forall>c\<in>set s. is_white_space c"
  proof (cases "dropWhile is_white_space s")
    case Nil
    then show ?thesis by (simp add: dropWhile_eq_Nil_conv)
  next
    case (Cons x xs)
    then have "\<not> is_white_space x"
      using hd_dropWhile [of is_white_space s] by simp
    with all Cons show ?thesis by simp
  qed
next
  assume "\<forall>c\<in>set s. is_white_space c"
  then show "trim s = []"
    by (auto simp add: trim_def dropWhile_eq_Nil_conv dest: set_dropWhileD)
qed

lemma letter_A_not_white_space: "\<not> is_white_space 0x41"
  by (simp add: is_white_space_def)

lemma trim_replicate_A: "0 < n \<Longrightarrow> trim (replicate n 0x41) \<noteq> []"
  using letter_A_not_white_space by (auto simp add: trim_eq_Nil)

lemmas audio_defs = stopAudio_def Let_def setIsPaused_def setIsPlaying_def unawaited_def
  ctx_resume_def set_onended_def source_stop_def update_source_def

lemma list_update_nth_same: "xs[i := g (xs[i := y] ! i)] = xs[i := g y]"
  by (cases "i < length xs") (simp_all add: list_update_beyond)

lemmas play_defs = playAudio_def playAudio_resumed_def createBufferSource_def source_start_def
  in_audio_try_def audio_catch_def

lemma ctx_app_eq:
  "ctx_app = \<lparr> state = initial_state, isExtracting = False, isPlaying = False,
     isPaused = False, audioContextRef = Some 0, audioSourceRef = None,
     contexts = [\<lparr> cstate = Suspended, resume_requested = False, suspend_requested = False \<rparr>],
     sources = [], calls = [NewAudioContext 0], unhandled = [] \<rparr>"
  by (simp add: ctx_app_def getAudioContext_def initial_app_def)

lemma typed_app_eq:
  "typed_app v = initial_app\<lparr> state := initial_state\<lparr> inputText := v \<rparr> \<rparr>"
  by (simp add: typed_app_def inputChange_def setState_def initial_app_def initial_state_def)

lemma run_started_eq:
  "run_started = initial_app\<lparr> state := initial_state\<lparr> inputText := [0x41],
      isProcessing := True \<rparr> \<rparr>"
  using trim_replicate_A [of 1]
  by (simp add: run_started_def typed_app_eq handleTranslateAndSpeak_def Let_def
      MAX_INPUT_LENGTH_def setState_def initial_app_def initial_state_def audio_defs)

lemma run_translated_eq:
  "run_translated = \<lparr> state = \<lparr> inputText = [0x41], selectedLanguage = CHINESE,
       isProcessing = True,
       result = Some \<lparr> originalText = [0x41], translatedText = [0x54],
                        targetLanguage = CHINESE, audioBuffer = None \<rparr>,
       error = None \<rparr>,
     isExtracting = False, isPlaying = False, isPaused = False,
     audioContextRef = Some 0, audioSourceRef = None,
     contexts = [\<lparr> cstate = Suspended, resume_requested = False, suspend_requested = False \<rparr>],
     sources = [], calls = [NewAudioContext 0], unhandled = [] \<rparr>"
  by (simp add: run_translated_def run_started_eq typed_app_eq
      handleTranslateAndSpeak_translated_def getAudioContext_def Let_def
      setState_def initial_app_def initial_state_def)

lemma run_waiting_eq:
  "handleTranslateAndSpeak_speech (AudioBuffer 11) 0 run_translated =
    (\<lparr> state = \<lparr> inputText = [0x41], selectedLanguage = CHINESE,
       isProcessing = False,
       result = Some \<lparr> originalText = [0x41], translatedText = [0x54],
                        targetLanguage = CHINESE, audioBuffer = Some (AudioBuffer 11) \<rparr>,
       error = None \<rparr>,
     isExtracting = False, isPlaying = False, isPaused = False,
     audioContextRef = Some 0, audioSourceRef = None,
     contexts = [\<lparr> cstate = Suspended, resume_requested = True, suspend_requested = False \<rparr>],
     sources = [], calls = [NewAudioContext 0, CtxResume 0, CtxResume 0], unhandled = [] \<rparr>,
     AwaitCtxResume 0)"
  by (simp add: run_translated_eq handleTranslateAndSpeak_speech_def setState_def
      play_defs audio_defs)

lemma run_playing_eq:
  "run_playing =
    \<lparr> state = \<lparr> inputText = [0x41], selectedLanguage = CHINESE,
       isProcessing = False,
       result = Some \<lparr> originalText = [0x41], translatedText = [0x54],
                        targetLanguage = CHINESE, audioBuffer = Some (AudioBuffer 11) \<rparr>,
       error = None \<rparr>,
     isExtracting = False, isPlaying = True, isPaused = False,
     audioContextRef = Some 0, audioSourceRef = Some 0,
     contexts = [\<lparr> cstate = Running, resume_requested = False, suspend_requested = False \<rparr>],
     sources = [\<lparr> buffer = Some (AudioBuffer 11), node_ctx = 0, connected = True,
                  onended = True, phase = Playing \<rparr>],
     calls = [NewAudioContext 0, CtxResume 0, CtxResume 0, CreateBufferSource 0 0,
              SetOnended 0 True, SourceStart 0], unhandled = [] \<rparr>"
  by (simp add: run_playing_def run_waiting_def run_waiting_eq handleTranslateAndSpeak_resumed_def
      device_running_def play_defs audio_defs)

lemma nth_list_update_in: "j < length xs \<Longrightarrow> xs[i := x] ! j = (if i = j then x else xs ! j)"
  by (cases "i = j") simp_all

lemma detached_cong:
  "sources a' = sources a \<Longrightarrow> detached s a' = detached s a"
  by (simp add: detached_def)

lemma stopAudio_detached: "detached s a \<Longrightarrow> detached s (stopAudio a)"
  by (auto simp add: detached_def audio_defs nth_list_update_in split: option.splits sum.splits)

lemma playAudio_resumed_detached: "detached s a \<Longrightarrow> detached s (fst (playAudio_resumed buf c a))"
  by (auto simp add: detached_def playAudio_resumed_def createBufferSource_def source_start_def
      set_onended_def update_source_def Let_def setIsPaused_def setIsPlaying_def
      nth_list_update_in nth_append split: sum.splits)

lemma playAudio_detached: "detached s a \<Longrightarrow> detached s (fst (playAudio buf c a))"
proof -
  assume d: "detached s a"
  have r: "\<And>b. detached s b \<Longrightarrow> ctx_resume c b = Inr b' \<Longrightarrow> detached s b'" for b'
    by (auto simp add: ctx_resume_def detached_def split: if_splits)
  show ?thesis
    using stopAudio_detached [OF d] playAudio_resumed_detached [of s "stopAudio a" buf c]
    by (auto simp add: playAudio_def Let_def dest: r split: sum.splits)
qed

lemma in_audio_try_sources: "sources (fst (in_audio_try r)) = sources (fst r)"
  by (cases r) (simp add: in_audio_try_def audio_catch_def setState_def split: pending.splits)

lemma step_detached: "detached s a \<Longrightarrow> detached s (step e a)"
proof (cases e)
  case EvSubmit
  assume d: "detached s a"
  have "detached s (setState f a)" for f using d by (simp add: detached_def setState_def)
  then show ?thesis using d EvSubmit
    by (simp add: handleTranslateAndSpeak_def Let_def stopAudio_detached)
next
  case (EvTranslated snap translated)
  assume "detached s a"
  then show ?thesis using EvTranslated
    by (simp add: handleTranslateAndSpeak_translated_def getAudioContext_def Let_def
        detached_def setState_def split: option.splits)
next
  case (EvSpeech buf c)
  assume d: "detached s a"
  have "detached s (setState f a)" for f using d by (simp add: detached_def setState_def)
  then show ?thesis using EvSpeech
    by (simp add: handleTranslateAndSpeak_speech_def Let_def
        detached_cong [OF in_audio_try_sources] playAudio_detached)
next
  case (EvAutoPlayResumed buf c)
  assume d: "detached s a"
  then show ?thesis using EvAutoPlayResumed
    by (simp add: handleTranslateAndSpeak_resumed_def
        detached_cong [OF in_audio_try_sources] playAudio_resumed_detached)
next
  case EvReplay
  assume d: "detached s a"
  then show ?thesis using EvReplay
    by (simp add: handleReplay_def playAudio_detached split: option.splits)
next
  case (EvReplayResumed buf c)
  assume "detached s a"
  then show ?thesis using EvReplayResumed by (simp add: playAudio_resumed_detached)
next
  case EvStop
  assume "detached s a"
  then show ?thesis using EvStop by (simp add: stopAudio_detached)
next
  case EvPause
  assume "detached s a"
  then show ?thesis using EvPause
    by (auto simp add: handlePause_def ctx_suspend_def detached_def split: option.splits)
next
  case EvResume
  assume "detached s a"
  then show ?thesis using EvResume
    by (auto simp add: handleResume_def ctx_resume_def detached_def split: option.splits)
next
  case (EvNaturalEnd s')
  assume "detached s a"
  then show ?thesis using EvNaturalEnd
    by (auto simp add: natural_end_def update_source_def detached_def Let_def
        setIsPaused_def setIsPlaying_def nth_list_update_in)
next
  case EvCleanup
  assume d: "detached s a"
  show ?thesis using stopAudio_detached [OF d] EvCleanup
    by (auto simp add: cleanup_def Let_def unawaited_def ctx_close_def detached_def
        split: option.splits)
qed (auto simp add: detached_def inputChange_def clearInput_def selectLanguage_def
     handleFile_def handleFile_extracted_def handleFile_failed_def setState_def
     setIsExtracting_def handleTranslateAndSpeak_translate_failed_def
     handleTranslateAndSpeak_speech_failed_def audio_catch_def handlePause_suspended_def
     handleResume_resumed_def setIsPaused_def setIsPlaying_def device_running_def
     device_suspended_def)

lemma run_detached: "detached s a \<Longrightarrow> detached s (run es a)"
  by (induction es arbitrary: a) (simp_all add: step_detached)

lemma natural_end_detached:
  "detached s b \<Longrightarrow> natural_end s b = update_source s (\<lambda>n. n\<lparr> phase := Finished \<rparr>) b"
  by (simp add: natural_end_def detached_def Let_def)

lemma stopAudio_detaches: "audioSourceRef a = Some s \<Longrightarrow> s < length (sources a) \<Longrightarrow>
    detached s (stopAudio a)"
  by (auto simp add: detached_def audio_defs split: option.splits sum.splits)

lemma stopped_playing_eq:
  "stopAudio run_playing =
    \<lparr> state = \<lparr> inputText = [0x41], selectedLanguage = CHINESE,
       isProcessing = False,
       result = Some \<lparr> originalText = [0x41], translatedText = [0x54],
                        targetLanguage = CHINESE, audioBuffer = Some (AudioBuffer 11) \<rparr>,
       error = None \<rparr>,
     isExtracting = False, isPlaying = False, isPaused = False,
     audioContextRef = Some 0, audioSourceRef = None,
     contexts = [\<lparr> cstate = Running, resume_requested = False, suspend_requested = False \<rparr>],
     sources = [\<lparr> buffer = Some (AudioBuffer 11), node_ctx = 0, connected = True,
                  onended = False, phase = Finished \<rparr>],
     calls = [NewAudioContext 0, CtxResume 0, CtxResume 0, CreateBufferSource 0 0,
              SetOnended 0 True, SourceStart 0, SetOnended 0 False, SourceStop 0],
     unhandled = [] \<rparr>"
  by (simp add: run_playing_eq audio_defs)

lemma stopAudio_fields:
  "audioContextRef (stopAudio a) = audioContextRef a"
  "length (contexts (stopAudio a)) = length (contexts a)"
  "unhandled (stopAudio a) = unhandled a"
  "isExtracting (stopAudio a) = isExtracting a"
  by (auto simp add: audio_defs split: option.splits sum.splits)

lemma cstate_list_update:
  "cstate (xs[i := (xs ! i)\<lparr> resume_requested := b \<rparr>] ! j) = cstate (xs ! j)"
  by (cases "i < length xs"; cases "i = j") (simp_all add: list_update_beyond)

lemma stopAudio_cstate: "cstate (contexts (stopAudio a) ! c) = cstate (contexts a ! c)"
  by (auto simp add: audio_defs cstate_list_update split: option.splits sum.splits)

lemma stopAudio_audioSourceRef: "audioSourceRef (stopAudio a) = None"
  by (auto simp add: audio_defs split: option.splits sum.splits)

lemma playAudio_resumed_state: "state (fst (playAudio_resumed buf c a)) = state a"
  by (simp add: playAudio_resumed_def createBufferSource_def source_start_def set_onended_def
      update_source_def Let_def setIsPaused_def setIsPlaying_def split: sum.splits)

lemma playAudio_state: "state (fst (playAudio buf c a)) = state a"
  using stopAudio_state [of a] playAudio_resumed_state [of buf c "stopAudio a"]
  by (auto simp add: playAudio_def Let_def ctx_resume_def split: sum.splits if_splits)





lemma one_context_cong:
  "audioContextRef a' = audioContextRef a \<Longrightarrow> length (contexts a') = length (contexts a) \<Longrightarrow>
   one_context a' = one_context a"
  by (simp add: one_context_def split: option.splits)

lemma playAudio_resumed_ctx:
  "audioContextRef (fst (playAudio_resumed buf c a)) = audioContextRef a"
  "length (contexts (fst (playAudio_resumed buf c a))) = length (contexts a)"
  by (simp_all add: playAudio_resumed_def createBufferSource_def source_start_def set_onended_def
      update_source_def Let_def setIsPaused_def setIsPlaying_def split: sum.splits)

lemma playAudio_ctx:
  "audioContextRef (fst (playAudio buf c a)) = audioContextRef a"
  "length (contexts (fst (playAudio buf c a))) = length (contexts a)"
  using stopAudio_fields(1,2) [of a] playAudio_resumed_ctx [of buf c "stopAudio a"]
  by (auto simp add: playAudio_def Let_def ctx_resume_def split: sum.splits if_splits)

lemma in_audio_try_ctx:
  "audioContextRef (fst (in_audio_try r)) = audioContextRef (fst r)"
  "length (contexts (fst (in_audio_try r))) = length (contexts (fst r))"
  by (cases r, simp add: in_audio_try_def audio_catch_def setState_def split: pending.splits)
    (cases r, simp add: in_audio_try_def audio_catch_def setState_def split: pending.splits)

lemma cleanup_ctx:
  "audioContextRef (cleanup a) = audioContextRef a"
  "length (contexts (cleanup a)) = length (contexts a)"
  using stopAudio_fields(1,2) [of a]
  by (auto simp add: cleanup_def Let_def unawaited_def ctx_close_def split: option.splits)

lemma step_ctx:
  "(\<forall>snap translated. e \<noteq> EvTranslated snap translated) \<Longrightarrow>
   audioContextRef (step e a) = audioContextRef a
   \<and> length (contexts (step e a)) = length (contexts a)"
proof (cases e)
  case EvSubmit
  then show ?thesis
    by (simp add: handleTranslateAndSpeak_def Let_def setState_def stopAudio_fields)
next
  case (EvSpeech buf c)
  then show ?thesis
    by (simp add: handleTranslateAndSpeak_speech_def Let_def in_audio_try_ctx playAudio_ctx
        setState_def)
next
  case (EvAutoPlayResumed buf c)
  then show ?thesis
    by (simp add: handleTranslateAndSpeak_resumed_def in_audio_try_ctx playAudio_resumed_ctx)
next
  case EvReplay
  then show ?thesis
    by (simp add: handleReplay_def playAudio_ctx split: option.splits)
next
  case (EvReplayResumed buf c)
  then show ?thesis by (simp add: playAudio_resumed_ctx)
next
  case EvStop
  then show ?thesis by (simp add: stopAudio_fields)
next
  case EvPause
  then show ?thesis
    by (simp add: handlePause_def ctx_suspend_def split: option.splits)
next
  case EvResume
  then show ?thesis
    by (simp add: handleResume_def ctx_resume_def split: option.splits)
next
  case EvCleanup
  then show ?thesis by (simp add: cleanup_ctx)
qed (simp_all add: inputChange_def clearInput_def selectLanguage_def
     handleFile_def handleFile_extracted_def handleFile_failed_def setState_def
     setIsExtracting_def handleTranslateAndSpeak_translate_failed_def
     handleTranslateAndSpeak_speech_failed_def audio_catch_def handlePause_suspended_def
     handleResume_resumed_def setIsPaused_def setIsPlaying_def device_running_def
     device_suspended_def natural_end_def update_source_def Let_def)

lemma step_one_context: "one_context a \<Longrightarrow> one_context (step e a)"
proof (cases "\<exists>snap translated. e = EvTranslated snap translated")
  case True
  assume "one_context a"
  then show ?thesis using True
    by (auto simp add: handleTranslateAndSpeak_translated_def getAudioContext_def Let_def
        one_context_def setState_def split: option.splits)
next
  case False
  assume "one_context a"
  then show ?thesis using False step_ctx [of e a] one_context_cong [of "step e a" a]
    by blast
qed

lemma run_one_context: "one_context a \<Longrightarrow> one_context (run es a)"
  by (induction es arbitrary: a) (simp_all add: step_one_context)

lemma one_context_initial: "one_context initial_app"
  by (simp add: one_context_def initial_app_def)

lemma one_context_length: "one_context a \<Longrightarrow> length (contexts a) \<le> 1"
  by (simp add: one_context_def split: option.splits)

lemma letter_B_not_white_space: "\<not> is_white_space 0x42"
  by (simp add: is_white_space_def)

lemma trim_B: "trim [0x42] \<noteq> []"
  using letter_B_not_white_space by (simp add: trim_eq_Nil)

lemma run_waiting_state:
  "run_waiting = \<lparr> state = \<lparr> inputText = [0x41], selectedLanguage = CHINESE,
       isProcessing = False,
       result = Some \<lparr> originalText = [0x41], translatedText = [0x54],
                        targetLanguage = CHINESE, audioBuffer = Some (AudioBuffer 11) \<rparr>,
       error = None \<rparr>,
     isExtracting = False, isPlaying = False, isPaused = False,
     audioContextRef = Some 0, audioSourceRef = None,
     contexts = [\<lparr> cstate = Suspended, resume_requested = True, suspend_requested = False \<rparr>],
     sources = [], calls = [NewAudioContext 0, CtxResume 0, CtxResume 0], unhandled = [] \<rparr>"
  by (simp add: run_waiting_def run_waiting_eq)

lemma run2_started_eq:
  "handleTranslateAndSpeak (inputChange [0x42] run_waiting) =
    (\<lparr> state = \<lparr> inputText = [0x42], selectedLanguage = CHINESE,
       isProcessing = True, result = None, error = None \<rparr>,
     isExtracting = False, isPlaying = False, isPaused = False,
     audioContextRef = Some 0, audioSourceRef = None,
     contexts = [\<lparr> cstate = Suspended, resume_requested = True, suspend_requested = False \<rparr>],
     sources = [],
     calls = [NewAudioContext 0, CtxResume 0, CtxResume 0, CtxResume 0], unhandled = [] \<rparr>,
     AwaitTranslate [0x42] CHINESE)"
  using trim_B
  by (simp add: run_waiting_state inputChange_def setState_def handleTranslateAndSpeak_def
      Let_def MAX_INPUT_LENGTH_def audio_defs)

lemma stale_autoplay_eq:
  "stale_autoplay =
    \<lparr> state = \<lparr> inputText = [0x42], selectedLanguage = CHINESE,
       isProcessing = True, result = None, error = None \<rparr>,
     isExtracting = False, isPlaying = True, isPaused = False,
     audioContextRef = Some 0, audioSourceRef = Some 0,
     contexts = [\<lparr> cstate = Running, resume_requested = False, suspend_requested = False \<rparr>],
     sources = [\<lparr> buffer = Some (AudioBuffer 11), node_ctx = 0, connected = True,
                  onended = True, phase = Playing \<rparr>],
     calls = [NewAudioContext 0, CtxResume 0, CtxResume 0, CtxResume 0,
              CreateBufferSource 0 0, SetOnended 0 True, SourceStart 0], unhandled = [] \<rparr>"
  by (simp add: stale_autoplay_def run2_started_def run2_started_eq
      handleTranslateAndSpeak_resumed_def device_running_def play_defs audio_defs)


lemma stopAudio_halts_current:
  "audioSourceRef a = Some s \<and> s < length (sources a) \<longrightarrow>
      \<not> onended (sources (stopAudio a) ! s)
      \<and> phase (sources (stopAudio a) ! s) \<noteq> Playing
      \<and> s \<notin> set (playing_sources (stopAudio a))
      \<and> take 1 (drop (length (calls a)) (calls (stopAudio a))) = [SetOnended s False]
      \<and> (phase (sources a ! s) \<noteq> Unscheduled \<longrightarrow>
            phase (sources (stopAudio a) ! s) = Finished
            \<and> take 2 (drop (length (calls a)) (calls (stopAudio a)))
                = [SetOnended s False, SourceStop s])"
  by (auto simp add: audio_defs playing_sources_def split: option.splits sum.splits)

lemma cleanup_state: "state (cleanup a) = state a"
  using stopAudio_state [of a]
  by (auto simp add: cleanup_def Let_def unawaited_def ctx_close_def split: option.splits)






lemma playAudio_resumed_Done: "snd (playAudio_resumed buf c a) = Done"
  by (simp add: playAudio_resumed_def createBufferSource_def source_start_def set_onended_def
      update_source_def Let_def)

lemma handleTranslateAndSpeak_resumed_state:
  "state (fst (handleTranslateAndSpeak_resumed buf c a)) = state a"
  using playAudio_resumed_Done [of buf c a] playAudio_resumed_state [of buf c a]
  by (cases "playAudio_resumed buf c a")
    (simp add: handleTranslateAndSpeak_resumed_def in_audio_try_def)

lemma step_keeps_processing:
  "isProcessing (state a) \<Longrightarrow> \<not> ends_processing e \<Longrightarrow> isProcessing (state (step e a))"
proof (cases e)
  case EvSubmit
  assume "isProcessing (state a)"
  then show ?thesis using EvSubmit
    by (simp add: handleTranslateAndSpeak_def Let_def setState_def stopAudio_state)
next
  case (EvTranslated snap translated)
  assume "isProcessing (state a)"
  then show ?thesis using EvTranslated
    by (simp add: handleTranslateAndSpeak_translated_def Let_def split_beta
        getAudioContext_state setState_def)
next
  case (EvAutoPlayResumed buf c)
  assume "isProcessing (state a)"
  then show ?thesis using EvAutoPlayResumed
    by (simp add: handleTranslateAndSpeak_resumed_state)
next
  case EvReplay
  assume "isProcessing (state a)"
  then show ?thesis using EvReplay
    by (simp add: handleReplay_def playAudio_state split: option.splits)
next
  case (EvReplayResumed buf c)
  assume "isProcessing (state a)"
  then show ?thesis using EvReplayResumed by (simp add: playAudio_resumed_state)
next
  case EvStop
  assume "isProcessing (state a)"
  then show ?thesis using EvStop by (simp add: stopAudio_state)
next
  case EvPause
  assume "isProcessing (state a)"
  then show ?thesis using EvPause
    by (simp add: handlePause_def ctx_suspend_def split: option.splits)
next
  case EvResume
  assume "isProcessing (state a)"
  then show ?thesis using EvResume
    by (simp add: handleResume_def ctx_resume_def split: option.splits)
next
  case EvCleanup
  assume "isProcessing (state a)"
  then show ?thesis using EvCleanup by (simp add: cleanup_state)
qed (simp_all add: inputChange_def clearInput_def selectLanguage_def
     handleFile_def handleFile_extracted_def handleFile_failed_def setState_def
     setIsExtracting_def handlePause_suspended_def
     handleResume_resumed_def setIsPaused_def setIsPlaying_def device_running_def
     device_suspended_def natural_end_def update_source_def Let_def)

subsection \<open>Input staging\<close>

text \<open>
  C1, as stated, fails for typed text. Text of 10001 code units typed into the
  text area is stored whole and no overflow is reported; the pipeline then
  rejects it: \<open>handleTranslateAndSpeak\<close> sets the too-long error, requests no
  translation and leaves the text at its 10001 code units.
\<close>

theorem typed_overflow_rejected_not_truncated:
  "length (replicate 10001 (0x41 :: code_unit)) > MAX_INPUT_LENGTH
   \<and> inputText (state (typed_app (replicate 10001 0x41))) = replicate 10001 0x41
   \<and> length (inputText (state (typed_app (replicate 10001 0x41)))) \<noteq> MAX_INPUT_LENGTH
   \<and> error (state (typed_app (replicate 10001 0x41))) = None
   \<and> snd (handleTranslateAndSpeak (typed_app (replicate 10001 0x41))) = Done
   \<and> error (state (fst (handleTranslateAndSpeak (typed_app (replicate 10001 0x41)))))
       = Some (InputTooLongMsg 10001 10000)
   \<and> inputText (state (fst (handleTranslateAndSpeak (typed_app (replicate 10001 0x41)))))
       = replicate 10001 0x41"
proof -
  have t: "inputText (state (typed_app (replicate 10001 0x41))) = replicate 10001 0x41"
    and e: "error (state (typed_app (replicate 10001 0x41))) = None"
    by (simp_all add: typed_app_def inputChange_def setState_def initial_app_def initial_state_def)
  have h1: "trim (replicate 10001 0x41) \<noteq> []"
    using trim_replicate_A [of 10001] by simp
  show ?thesis
    using h1 by (simp add: t e handleTranslateAndSpeak_def Let_def setState_def MAX_INPUT_LENGTH_def)
qed

text \<open>
  C1, amended. Text extracted from a file that is longer than the maximum is
  cut to its first \<open>MAX_INPUT_LENGTH\<close> code units, so to exactly the maximum
  length, and the truncation message is set; extracted text within the limit is
  stored unchanged, as is typed text of any length. Typed text that is longer
  than the maximum is not truncated: the pipeline rejects it with an error and
  changes nothing else.
\<close>

theorem staging_truncates_extracted_text:
  "(length extracted > MAX_INPUT_LENGTH \<longrightarrow>
      inputText (state (handleFile_extracted extracted a)) = take MAX_INPUT_LENGTH extracted
      \<and> length (inputText (state (handleFile_extracted extracted a))) = MAX_INPUT_LENGTH
      \<and> error (state (handleFile_extracted extracted a)) = Some (FileTruncatedMsg MAX_INPUT_LENGTH))
   \<and> (length extracted \<le> MAX_INPUT_LENGTH \<longrightarrow>
      inputText (state (handleFile_extracted extracted a)) = extracted
      \<and> error (state (handleFile_extracted extracted a)) = error (state a))
   \<and> inputText (state (inputChange v a)) = v
   \<and> error (state (inputChange v a)) = None
   \<and> (trim (inputText (state a)) \<noteq> [] \<and> length (inputText (state a)) > MAX_INPUT_LENGTH \<longrightarrow>
      handleTranslateAndSpeak a =
        (a\<lparr> state := (state a)\<lparr> error :=
              Some (InputTooLongMsg (length (inputText (state a))) MAX_INPUT_LENGTH) \<rparr> \<rparr>, Done))"
  by (simp add: handleFile_extracted_def setIsExtracting_def setState_def slice0_def
      inputChange_def handleTranslateAndSpeak_def Let_def)

theorem staging_truncates_extracted_text_witness:
  "length (replicate 10001 (0x41 :: code_unit)) > MAX_INPUT_LENGTH
   \<and> inputText (state (handleFile_extracted (replicate 10001 0x41) initial_app))
        = replicate 10000 0x41
   \<and> error (state (handleFile_extracted (replicate 10001 0x41) initial_app))
        = Some (FileTruncatedMsg 10000)
   \<and> length [0x41 :: code_unit] \<le> MAX_INPUT_LENGTH
   \<and> inputText (state (handleFile_extracted [0x41] initial_app)) = [0x41]
   \<and> error (state (handleFile_extracted [0x41] initial_app)) = None
   \<and> trim (inputText (state (typed_app (replicate 10001 0x41)))) \<noteq> []
   \<and> length (inputText (state (typed_app (replicate 10001 0x41)))) > MAX_INPUT_LENGTH
   \<and> snd (handleTranslateAndSpeak (typed_app (replicate 10001 0x41))) = Done"
proof -
  have t: "inputText (state (typed_app (replicate 10001 0x41))) = replicate 10001 0x41"
    by (simp add: typed_app_def inputChange_def setState_def)
  have h: "trim (replicate 10001 0x41) \<noteq> []"
    using trim_replicate_A [of 10001] by simp
  have i: "error (state initial_app) = None"
    by (simp add: initial_app_def initial_state_def)
  show ?thesis
    using staging_truncates_extracted_text [of "replicate 10001 0x41" initial_app]
      staging_truncates_extracted_text [of "[0x41]" initial_app]
      staging_truncates_extracted_text [of "[]" "typed_app (replicate 10001 0x41)"] h
    by (simp add: t i MAX_INPUT_LENGTH_def)
qed

subsection \<open>The pipeline\<close>

text \<open>
  C3. When a run has passed the guards and its translation call is rejected,
  the run ends there: the failure message is stored in \<open>error\<close>, the run awaits
  nothing more (the synthesis collaborator is never called), \<open>result\<close> is still
  the null the run set when it started, and \<open>isProcessing\<close> is false.
\<close>

theorem translation_failure_aborts:
  assumes "trim (inputText (state a)) \<noteq> []"
    and "length (inputText (state a)) \<le> MAX_INPUT_LENGTH"
  shows "snd (handleTranslateAndSpeak a) =
           AwaitTranslate (inputText (state a)) (selectedLanguage (state a))
    \<and> snd (handleTranslateAndSpeak_translate_failed err (fst (handleTranslateAndSpeak a))) = Done
    \<and> state (fst (handleTranslateAndSpeak_translate_failed err (fst (handleTranslateAndSpeak a))))
        = (state a)\<lparr> isProcessing := False, result := None,
                      error := Some (message_or err ProcessingFailedMsg) \<rparr>"
  using assms
  by (simp add: handleTranslateAndSpeak_def handleTranslateAndSpeak_translate_failed_def
      setState_def stopAudio_state Let_def)

theorem translation_failure_aborts_witness:
  "trim (inputText (state (typed_app [0x41]))) \<noteq> []
   \<and> length (inputText (state (typed_app [0x41]))) \<le> MAX_INPUT_LENGTH
   \<and> snd (handleTranslateAndSpeak (typed_app [0x41])) = AwaitTranslate [0x41] CHINESE
   \<and> snd (handleTranslateAndSpeak_translate_failed (ServiceError [0x45])
            (fst (handleTranslateAndSpeak (typed_app [0x41])))) = Done
   \<and> state (fst (handleTranslateAndSpeak_translate_failed (ServiceError [0x45])
            (fst (handleTranslateAndSpeak (typed_app [0x41])))))
       = \<lparr> inputText = [0x41], selectedLanguage = CHINESE, isProcessing = False,
           result = None, error = Some (ThrownMsg [0x45]) \<rparr>"
proof -
  have t: "inputText (state (typed_app [0x41])) = [0x41]"
    and l: "selectedLanguage (state (typed_app [0x41])) = CHINESE"
    and s: "state (typed_app [0x41]) = \<lparr> inputText = [0x41], selectedLanguage = CHINESE,
         isProcessing = False, result = None, error = None \<rparr>"
    by (simp_all add: typed_app_def inputChange_def setState_def initial_app_def initial_state_def)
  have h1: "trim (inputText (state (typed_app [0x41]))) \<noteq> []"
    using trim_replicate_A [of 1] by (simp add: t)
  have h2: "length (inputText (state (typed_app [0x41]))) \<le> MAX_INPUT_LENGTH"
    by (simp add: t MAX_INPUT_LENGTH_def)
  show ?thesis
    using translation_failure_aborts [OF h1 h2, of "ServiceError [0x45]"] h1 h2
    by (simp add: t l s message_or_def)
qed

text \<open>
  C4. The handler of a rejected synthesis call leaves \<open>result\<close> as it is, sets
  \<open>isProcessing\<close> to false and stores the synthesis-failure message. After a
  resolved translation followed by a rejected synthesis the result therefore
  holds the translated text with a null audio buffer.
\<close>

theorem synthesis_failure_keeps_translation:
  "result (state (fst (handleTranslateAndSpeak_speech_failed audioErr a))) = result (state a)
   \<and> isProcessing (state (fst (handleTranslateAndSpeak_speech_failed audioErr a))) = False
   \<and> error (state (fst (handleTranslateAndSpeak_speech_failed audioErr a)))
        = Some (SpeechFailedMsg audioErr)
   \<and> snd (handleTranslateAndSpeak_speech_failed audioErr a) = Done
   \<and> snd (handleTranslateAndSpeak_translated snap translated a0)
        = AwaitSpeech translated (fst (getAudioContext a0))
   \<and> state (fst (handleTranslateAndSpeak_speech_failed audioErr
                     (fst (handleTranslateAndSpeak_translated snap translated a0))))
        = (state a0)\<lparr> isProcessing := False,
             result := Some \<lparr> originalText = inputText snap, translatedText = translated,
                                targetLanguage = selectedLanguage snap, audioBuffer = None \<rparr>,
             error := Some (SpeechFailedMsg audioErr) \<rparr>"
  by (simp add: handleTranslateAndSpeak_speech_failed_def audio_catch_def setState_def
      handleTranslateAndSpeak_translated_def getAudioContext_def Let_def split: option.splits)

text \<open>
  Runs are kept apart by the submit button. From the start of a run until its
  translation is rejected or its synthesis resolves or is rejected,
  \<open>isProcessing\<close> stays true whatever else happens, and the button stays
  disabled: no second run can start while a translation or a synthesis is
  outstanding, so a translation result, a synthesis result or an error is never
  applied after a newer run has started.
\<close>

lemma submit_disabled_while_awaiting:
  "isProcessing (state a) \<Longrightarrow> list_all (\<lambda>e. \<not> ends_processing e) es \<Longrightarrow>
   isProcessing (state (run es a)) \<and> submit_disabled (run es a)"
proof (induction es arbitrary: a)
  case Nil
  then show ?case by (simp add: submit_disabled_def)
next
  case (Cons e es)
  then show ?case by (simp add: step_keeps_processing)
qed

text \<open>
  C2 does not hold of the component all the same. The synthesis continuation
  clears \<open>isProcessing\<close> before it awaits \<open>playAudio\<close> (lines 92--99), and on a
  suspended context \<open>playAudio\<close> awaits \<open>ctx.resume()\<close> before it creates its
  source: the defect of C5. In that wait the first run is still in flight and the
  submit button is enabled again. Evaluated: the operator types \<open>B\<close> and starts
  run 2, which clears the result and stops the audio, so that nothing plays; when
  the device runs, run 1 goes on, starts a source on its own buffer and sets
  \<open>isPlaying\<close>, while run 2 is processing and has published no result.
\<close>

theorem superseded_run_mutates_shared_state:
  "snd (handleTranslateAndSpeak_speech (AudioBuffer 11) 0 run_translated) = AwaitCtxResume 0
   \<and> \<not> isProcessing (state run_waiting)
   \<and> \<not> submit_disabled (inputChange [0x42] run_waiting)
   \<and> snd (handleTranslateAndSpeak (inputChange [0x42] run_waiting)) = AwaitTranslate [0x42] CHINESE
   \<and> isProcessing (state run2_started) \<and> result (state run2_started) = None
   \<and> \<not> isPlaying run2_started \<and> audioSourceRef run2_started = None
   \<and> playing_sources run2_started = []
   \<and> isPlaying stale_autoplay \<and> audioSourceRef stale_autoplay = Some 0
   \<and> buffer (sources stale_autoplay ! 0) = Some (AudioBuffer 11)
   \<and> playing_sources stale_autoplay = [0]
   \<and> isProcessing (state stale_autoplay) \<and> result (state stale_autoplay) = None"
proof -
  have d: "\<not> submit_disabled (inputChange [0x42] run_waiting)"
    using trim_B by (simp add: run_waiting_state submit_disabled_def inputChange_def setState_def)
  have w: "\<not> isProcessing (state run_waiting)"
    by (simp add: run_waiting_state)
  show ?thesis
    using d w
    by (simp add: run_waiting_eq run2_started_def run2_started_eq stale_autoplay_eq
        playing_sources_def)
qed

subsection \<open>Playback\<close>

text \<open>
  C5 does not hold of \<open>playAudio\<close>. The function stops the current source
  first, but when the context is suspended it then awaits \<open>ctx.resume()\<close> and
  only afterwards creates and records its source. A second \<open>playAudio\<close> made
  during that wait finds no source to stop; when the device runs, both calls
  create and start a source. Evaluated on the suspended context with buffers 11
  and 22: both sources are playing at once, \<open>audioSourceRef\<close> holds only the
  second, and a following \<open>stopAudio\<close> leaves the first one playing. The same
  happens through the render: while the auto-play of a run awaits the resume,
  the replay button is shown, and pressing it ends with two playing sources.
\<close>

theorem overlapping_playAudio_two_sources:
  "snd (playAudio (AudioBuffer 11) 0 ctx_app) = AwaitCtxResume 0
   \<and> playing_sources overlap_app = [0, 1]
   \<and> map (\<lambda>s. buffer (sources overlap_app ! s)) (playing_sources overlap_app)
        = [Some (AudioBuffer 11), Some (AudioBuffer 22)]
   \<and> audioSourceRef overlap_app = Some 1
   \<and> playing_sources (stopAudio overlap_app) = [0]
   \<and> rendered_controls run_waiting = ReplayButton
   \<and> snd (handleReplay run_waiting) = AwaitCtxResume 0
   \<and> playing_sources replay_overlap_app = [0, 1]
   \<and> audioSourceRef replay_overlap_app = Some 1"
proof -
  have o: "snd (playAudio (AudioBuffer 11) 0 ctx_app) = AwaitCtxResume 0
   \<and> playing_sources overlap_app = [0, 1]
   \<and> map (\<lambda>s. buffer (sources overlap_app ! s)) (playing_sources overlap_app)
        = [Some (AudioBuffer 11), Some (AudioBuffer 22)]
   \<and> audioSourceRef overlap_app = Some 1
   \<and> playing_sources (stopAudio overlap_app) = [0]"
    by (simp add: overlap_app_def ctx_app_eq device_running_def play_defs audio_defs
      playing_sources_def upt_rec)
  have r: "rendered_controls run_waiting = ReplayButton
   \<and> snd (handleReplay run_waiting) = AwaitCtxResume 0
   \<and> playing_sources replay_overlap_app = [0, 1]
   \<and> audioSourceRef replay_overlap_app = Some 1"
    by (simp add: replay_overlap_app_def run_waiting_state rendered_controls_def handleReplay_def
      handleTranslateAndSpeak_resumed_def device_running_def play_defs audio_defs
      playing_sources_def upt_rec)
  show ?thesis using o r by blast
qed

text \<open>
  C6. When \<open>stopAudio\<close> finds a current source \<open>s\<close> (one that was started), its
  first call on the audio API detaches the natural-end handler of \<open>s\<close> and its
  second halts \<open>s\<close>. From then on, whatever events follow, the handler of \<open>s\<close>
  stays detached, and an end-of-playback notification for \<open>s\<close> changes neither
  the playback flags nor the current source nor the application state.
\<close>

theorem stopAudio_detaches_before_halting:
  assumes "audioSourceRef a = Some s" and "s < length (sources a)"
    and "phase (sources a ! s) \<noteq> Unscheduled"
  shows "take 2 (drop (length (calls a)) (calls (stopAudio a))) = [SetOnended s False, SourceStop s]
    \<and> \<not> onended (sources (run es (stopAudio a)) ! s)
    \<and> isPlaying (natural_end s (run es (stopAudio a))) = isPlaying (run es (stopAudio a))
    \<and> isPaused (natural_end s (run es (stopAudio a))) = isPaused (run es (stopAudio a))
    \<and> audioSourceRef (natural_end s (run es (stopAudio a))) = audioSourceRef (run es (stopAudio a))
    \<and> state (natural_end s (run es (stopAudio a))) = state (run es (stopAudio a))"
proof -
  have c: "take 2 (drop (length (calls a)) (calls (stopAudio a))) = [SetOnended s False, SourceStop s]"
    using assms by (auto simp add: audio_defs split: option.splits)
  have d: "detached s (run es (stopAudio a))"
    using assms by (simp add: run_detached stopAudio_detaches)
  show ?thesis
    using c d by (simp add: natural_end_detached update_source_def) (simp add: detached_def)
qed

theorem stopAudio_detaches_before_halting_witness:
  "audioSourceRef run_playing = Some 0 \<and> 0 < length (sources run_playing)
   \<and> phase (sources run_playing ! 0) \<noteq> Unscheduled
   \<and> take 2 (drop (length (calls run_playing)) (calls (stopAudio run_playing)))
        = [SetOnended 0 False, SourceStop 0]
   \<and> \<not> onended (sources (run [EvReplay] (stopAudio run_playing)) ! 0)
   \<and> isPlaying (run [EvReplay] (stopAudio run_playing))
   \<and> isPlaying (natural_end 0 (run [EvReplay] (stopAudio run_playing)))"
proof -
  have h1: "audioSourceRef run_playing = Some 0"
    and h2: "0 < length (sources run_playing)"
    and h3: "phase (sources run_playing ! 0) \<noteq> Unscheduled"
    by (simp_all add: run_playing_eq)
  have p: "isPlaying (run [EvReplay] (stopAudio run_playing))"
    by (simp only: stopped_playing_eq) (simp add: handleReplay_def play_defs audio_defs)
  show ?thesis
    using stopAudio_detaches_before_halting [OF h1 h2 h3, of "[EvReplay]"] h1 h2 h3 p
    by simp
qed

text \<open>
  C7. \<open>stopAudio\<close> returns normally from every state, with both playback flags
  false and no current source, and rejects no promise. A current source is
  stopped: its handler is detached first, it is no longer playing, and when it
  had been started it is halted by \<open>stop()\<close> and finished (a \<open>stop()\<close> that throws
  on a source never started is caught); the other sources are left as they are.
  A second \<open>stopAudio\<close> changes nothing but the record of calls (it asks a
  context that is still suspended to resume once more). With no current source it
  touches no source. When the context is suspended it requests \<open>resume()\<close>, so
  that the context runs once the device has carried the request out.
\<close>

theorem stopAudio_idempotent:
  "isPlaying (stopAudio a) = False \<and> isPaused (stopAudio a) = False
   \<and> audioSourceRef (stopAudio a) = None
   \<and> unhandled (stopAudio a) = unhandled a
   \<and> stopAudio (stopAudio a) = (stopAudio a)\<lparr> calls := calls (stopAudio (stopAudio a)) \<rparr>
   \<and> (audioSourceRef a = None \<longrightarrow> sources (stopAudio a) = sources a)
   \<and> (audioContextRef a = Some c \<and> c < length (contexts a)
        \<and> cstate (contexts a ! c) = Suspended \<longrightarrow>
          resume_requested (contexts (stopAudio a) ! c)
          \<and> CtxResume c \<in> set (calls (stopAudio a))
          \<and> cstate (contexts (device_running c (stopAudio a)) ! c) = Running)
   \<and> (audioSourceRef a = Some s \<and> s < length (sources a) \<longrightarrow>
      \<not> onended (sources (stopAudio a) ! s)
      \<and> phase (sources (stopAudio a) ! s) \<noteq> Playing
      \<and> s \<notin> set (playing_sources (stopAudio a))
      \<and> take 1 (drop (length (calls a)) (calls (stopAudio a))) = [SetOnended s False]
      \<and> (phase (sources a ! s) \<noteq> Unscheduled \<longrightarrow>
            phase (sources (stopAudio a) ! s) = Finished
            \<and> take 2 (drop (length (calls a)) (calls (stopAudio a)))
                = [SetOnended s False, SourceStop s]))
   \<and> length (sources (stopAudio a)) = length (sources a)
   \<and> (\<forall>i. audioSourceRef a \<noteq> Some i \<longrightarrow> sources (stopAudio a) ! i = sources a ! i)"
proof -
  have old: "isPlaying (stopAudio a) = False \<and> isPaused (stopAudio a) = False
   \<and> audioSourceRef (stopAudio a) = None
   \<and> unhandled (stopAudio a) = unhandled a
   \<and> stopAudio (stopAudio a) = (stopAudio a)\<lparr> calls := calls (stopAudio (stopAudio a)) \<rparr>
   \<and> (audioSourceRef a = None \<longrightarrow> sources (stopAudio a) = sources a)
   \<and> (audioContextRef a = Some c \<and> c < length (contexts a)
        \<and> cstate (contexts a ! c) = Suspended \<longrightarrow>
          resume_requested (contexts (stopAudio a) ! c)
          \<and> CtxResume c \<in> set (calls (stopAudio a))
          \<and> cstate (contexts (device_running c (stopAudio a)) ! c) = Running)"
    by (auto simp add: audio_defs device_running_def list_update_nth_same
      split: option.splits sum.splits)
  have len: "length (sources (stopAudio a)) = length (sources a)"
    by (auto simp add: audio_defs split: option.splits sum.splits)
  have other: "\<forall>i. audioSourceRef a \<noteq> Some i \<longrightarrow> sources (stopAudio a) ! i = sources a ! i"
    by (auto simp add: audio_defs split: option.splits sum.splits)
  show ?thesis
    using old stopAudio_halts_current [of a s] len other by blast
qed

theorem stopAudio_idempotent_witness:
  "audioSourceRef ctx_app = None \<and> sources (stopAudio ctx_app) = sources ctx_app
   \<and> audioContextRef ctx_app = Some 0 \<and> 0 < length (contexts ctx_app)
   \<and> cstate (contexts ctx_app ! 0) = Suspended
   \<and> resume_requested (contexts (stopAudio ctx_app) ! 0)
   \<and> CtxResume 0 \<in> set (calls (stopAudio ctx_app))
   \<and> cstate (contexts (device_running 0 (stopAudio ctx_app)) ! 0) = Running
   \<and> isPlaying (stopAudio run_playing) = False
   \<and> stopAudio (stopAudio run_playing) = stopAudio run_playing
   \<and> audioSourceRef run_playing = Some 0 \<and> 0 < length (sources run_playing)
   \<and> phase (sources run_playing ! 0) \<noteq> Unscheduled
   \<and> playing_sources run_playing = [0]
   \<and> phase (sources (stopAudio run_playing) ! 0) = Finished
   \<and> \<not> onended (sources (stopAudio run_playing) ! 0)
   \<and> playing_sources (stopAudio run_playing) = []
   \<and> take 2 (drop (length (calls run_playing)) (calls (stopAudio run_playing)))
        = [SetOnended 0 False, SourceStop 0]"
proof -
  have h: "audioSourceRef ctx_app = None" "audioContextRef ctx_app = Some 0"
    "0 < length (contexts ctx_app)" "cstate (contexts ctx_app ! 0) = Suspended"
    by (simp_all add: ctx_app_eq)
  have k: "audioSourceRef run_playing = Some 0" "0 < length (sources run_playing)"
    "phase (sources run_playing ! 0) \<noteq> Unscheduled" "playing_sources run_playing = [0]"
    by (simp_all add: run_playing_eq playing_sources_def)
  have c: "calls (stopAudio (stopAudio run_playing)) = calls (stopAudio run_playing)"
    by (simp only: stopped_playing_eq) (simp add: audio_defs)
  have p: "playing_sources (stopAudio run_playing) = []"
    by (simp only: stopped_playing_eq) (simp add: playing_sources_def)
  show ?thesis
    using stopAudio_idempotent [of ctx_app 0 0] stopAudio_idempotent [of run_playing 0 0] h k c p
    by simp
qed



text \<open>
  C9, as stated, fails in its last part: the cleanup has no guard for a context
  that is already closed. A second cleanup calls \<open>close()\<close> on the closed
  context again, and the promise it returns is rejected with
  \<open>InvalidStateError\<close>, which nothing handles.
\<close>

theorem cleanup_twice_closes_closed_context:
  "cstate (contexts (cleanup run_playing) ! 0) = Closed
   \<and> unhandled (cleanup run_playing) = []
   \<and> unhandled (cleanup (cleanup run_playing)) = [InvalidStateError]
   \<and> cleanup (cleanup run_playing) \<noteq> cleanup run_playing"
proof -
  have c: "cleanup run_playing = (stopAudio run_playing)\<lparr> contexts :=
      [\<lparr> cstate = Closed, resume_requested = False, suspend_requested = False \<rparr>],
      calls := calls (stopAudio run_playing) @ [CtxClose 0] \<rparr>"
    unfolding cleanup_def by (simp only: stopped_playing_eq) (simp add: ctx_close_def unawaited_def)
  have u: "unhandled (cleanup (cleanup run_playing)) = [InvalidStateError]"
    unfolding c stopped_playing_eq by (simp add: cleanup_def audio_defs ctx_close_def)
  have v: "unhandled (cleanup run_playing) = []"
    unfolding c stopped_playing_eq by simp
  have n: "cleanup (cleanup run_playing) \<noteq> cleanup run_playing"
  proof
    assume "cleanup (cleanup run_playing) = cleanup run_playing"
    then have "unhandled (cleanup (cleanup run_playing)) = unhandled (cleanup run_playing)"
      by simp
    then show False by (simp add: u v)
  qed
  have s: "cstate (contexts (cleanup run_playing) ! 0) = Closed"
    unfolding c by simp
  show ?thesis using s u v n by simp
qed

text \<open>
  C9, amended. \<open>getAudioContext\<close> creates the context on first use and returns
  the existing one afterwards: a second call returns the same context and
  changes nothing, and whatever events occur after mounting, at most one context
  exists. The cleanup stops the audio and, when the context is not closed,
  closes it with exactly one \<open>close()\<close> and no rejection. On a context that is
  already closed the cleanup still calls \<open>close()\<close>; the call is rejected with
  \<open>InvalidStateError\<close> and the context stays closed.
\<close>

theorem audio_context_lazy_singleton:
  "getAudioContext (snd (getAudioContext a)) = getAudioContext a
   \<and> audioContextRef (snd (getAudioContext a)) = Some (fst (getAudioContext a))
   \<and> (audioContextRef a = Some c \<longrightarrow> getAudioContext a = (c, a))
   \<and> length (contexts (run es initial_app)) \<le> 1
   \<and> (audioContextRef a = Some c \<and> c < length (contexts a) \<and> cstate (contexts a ! c) \<noteq> Closed
        \<longrightarrow> cstate (contexts (cleanup a) ! c) = Closed
          \<and> calls (cleanup a) = calls (stopAudio a) @ [CtxClose c]
          \<and> unhandled (cleanup a) = unhandled a
          \<and> audioSourceRef (cleanup a) = None)
   \<and> (audioContextRef a = Some c \<and> cstate (contexts a ! c) = Closed
        \<longrightarrow> cleanup a = (stopAudio a)\<lparr> unhandled := unhandled a @ [InvalidStateError] \<rparr>)"
proof -
  have g: "getAudioContext (snd (getAudioContext a)) = getAudioContext a
   \<and> audioContextRef (snd (getAudioContext a)) = Some (fst (getAudioContext a))
   \<and> (audioContextRef a = Some c \<longrightarrow> getAudioContext a = (c, a))"
    by (simp add: getAudioContext_def Let_def split: option.splits)
  have l: "length (contexts (run es initial_app)) \<le> 1"
    using one_context_length [OF run_one_context [OF one_context_initial]] by simp
  have o: "audioContextRef a = Some c \<and> c < length (contexts a) \<and> cstate (contexts a ! c) \<noteq> Closed
        \<longrightarrow> cstate (contexts (cleanup a) ! c) = Closed
          \<and> calls (cleanup a) = calls (stopAudio a) @ [CtxClose c]
          \<and> unhandled (cleanup a) = unhandled a
          \<and> audioSourceRef (cleanup a) = None"
    using stopAudio_fields [of a] stopAudio_cstate [of a c] stopAudio_audioSourceRef [of a]
    by (auto simp add: cleanup_def Let_def unawaited_def ctx_close_def)
  have t: "audioContextRef a = Some c \<and> cstate (contexts a ! c) = Closed
        \<longrightarrow> cleanup a = (stopAudio a)\<lparr> unhandled := unhandled a @ [InvalidStateError] \<rparr>"
    using stopAudio_fields [of a] stopAudio_cstate [of a c]
    by (auto simp add: cleanup_def Let_def unawaited_def ctx_close_def)
  show ?thesis using g l o t by simp
qed

theorem audio_context_lazy_singleton_witness:
  "audioContextRef run_playing = Some 0
   \<and> getAudioContext run_playing = (0, run_playing)
   \<and> 0 < length (contexts run_playing)
   \<and> cstate (contexts run_playing ! 0) \<noteq> Closed
   \<and> cstate (contexts (cleanup run_playing) ! 0) = Closed
   \<and> calls (cleanup run_playing) = calls (stopAudio run_playing) @ [CtxClose 0]
   \<and> unhandled (cleanup run_playing) = unhandled run_playing
   \<and> audioContextRef (cleanup run_playing) = Some 0
   \<and> cleanup (cleanup run_playing)
        = (stopAudio (cleanup run_playing))
            \<lparr> unhandled := unhandled (cleanup run_playing) @ [InvalidStateError] \<rparr>"
proof -
  have h: "audioContextRef run_playing = Some 0" "0 < length (contexts run_playing)"
    "cstate (contexts run_playing ! 0) \<noteq> Closed"
    by (simp_all add: run_playing_eq)
  have k: "audioContextRef (cleanup run_playing) = Some 0"
    by (simp add: cleanup_ctx h)
  show ?thesis
    using audio_context_lazy_singleton [where a = run_playing and c = 0] h k
      audio_context_lazy_singleton [where a = "cleanup run_playing" and c = 0]
    by simp
qed

subsection \<open>Language selection\<close>



end
